theory Spec2Isabelle
  imports Complex_Main
begin

section \<open>JavaScript numbers\<close>

text \<open>
  The component computes with JavaScript numbers. A number is modelled as a finite value,
  one of the two infinities, or NaN. Finite values are exact reals: the rounding of IEEE
  doubles is not modelled, and the negative zero is not told apart from zero. What the
  component's behaviour turns on is kept: a division of zero by zero is NaN, every
  comparison with NaN is false, and the double bitwise negation reduces to 32 bits.
\<close>

datatype number = Fin real | PInf | NInf | NaN

fun js_neg :: "number \<Rightarrow> number" where
  "js_neg (Fin a) = Fin (- a)"
| "js_neg PInf = NInf"
| "js_neg NInf = PInf"
| "js_neg NaN = NaN"

fun js_add :: "number \<Rightarrow> number \<Rightarrow> number" where
  "js_add NaN _ = NaN"
| "js_add _ NaN = NaN"
| "js_add (Fin a) (Fin b) = Fin (a + b)"
| "js_add PInf NInf = NaN"
| "js_add NInf PInf = NaN"
| "js_add PInf _ = PInf"
| "js_add NInf _ = NInf"
| "js_add (Fin a) PInf = PInf"
| "js_add (Fin a) NInf = NInf"

definition js_sub :: "number \<Rightarrow> number \<Rightarrow> number" where
  "js_sub a b = js_add a (js_neg b)"

text \<open>The sign of a number: 1, 0 or -1; NaN has none.\<close>

fun js_sign :: "number \<Rightarrow> int option" where
  "js_sign (Fin a) = Some (if a > 0 then 1 else if a < 0 then - 1 else 0)"
| "js_sign PInf = Some 1"
| "js_sign NInf = Some (- 1)"
| "js_sign NaN = None"

definition inf_of_sign :: "int \<Rightarrow> number" where
  "inf_of_sign s = (if s > 0 then PInf else if s < 0 then NInf else NaN)"

fun js_mul :: "number \<Rightarrow> number \<Rightarrow> number" where
  "js_mul (Fin a) (Fin b) = Fin (a * b)"
| "js_mul a b =
     (case (js_sign a, js_sign b) of
        (Some s, Some t) \<Rightarrow> inf_of_sign (s * t)
      | _ \<Rightarrow> NaN)"

fun js_div :: "number \<Rightarrow> number \<Rightarrow> number" where
  "js_div NaN _ = NaN"
| "js_div _ NaN = NaN"
| "js_div (Fin a) (Fin b) =
     (if b = 0 then (if a = 0 then NaN else if a > 0 then PInf else NInf)
      else Fin (a / b))"
| "js_div (Fin a) _ = Fin 0"
| "js_div PInf (Fin b) = (if b < 0 then NInf else PInf)"
| "js_div NInf (Fin b) = (if b < 0 then PInf else NInf)"
| "js_div _ _ = NaN"

fun js_lt :: "number \<Rightarrow> number \<Rightarrow> bool" where
  "js_lt NaN _ = False"
| "js_lt _ NaN = False"
| "js_lt (Fin a) (Fin b) = (a < b)"
| "js_lt _ NInf = False"
| "js_lt PInf _ = False"
| "js_lt NInf _ = True"
| "js_lt (Fin a) PInf = True"

definition js_gt :: "number \<Rightarrow> number \<Rightarrow> bool" where
  "js_gt a b = js_lt b a"

text \<open>Strict equality \<open>===\<close> on numbers: NaN equals nothing, itself included.\<close>

definition js_strict_eq :: "number \<Rightarrow> number \<Rightarrow> bool" where
  "js_strict_eq a b = (a \<noteq> NaN \<and> b \<noteq> NaN \<and> a = b)"

definition js_le :: "number \<Rightarrow> number \<Rightarrow> bool" where
  "js_le a b = (js_lt a b \<or> js_strict_eq a b)"

text \<open>
  \<open>Number(v)\<close> for a value that is a number or undefined (\<open>None\<close>): undefined converts
  to NaN.
\<close>

definition Number :: "number option \<Rightarrow> number" where
  "Number v = (case v of None \<Rightarrow> NaN | Some n \<Rightarrow> n)"

text \<open>The nullish coalescing \<open>v ?? d\<close>.\<close>

definition nullish :: "'a option \<Rightarrow> 'a \<Rightarrow> 'a" where
  "nullish v d = (case v of None \<Rightarrow> d | Some a \<Rightarrow> a)"

text \<open>
  \<open>~~v\<close>: the operand goes through ToInt32 (NaN, the infinities and undefined give 0; a
  finite value is truncated towards zero, reduced modulo \<open>2^32\<close> and read as a signed
  32-bit integer); negating all bits twice gives that integer back.
\<close>

definition ToInt32 :: "number \<Rightarrow> int" where
  "ToInt32 n =
     (case n of
        Fin a \<Rightarrow>
          (let t = (if a \<ge> 0 then \<lfloor>a\<rfloor> else \<lceil>a\<rceil>);
               m = t mod 4294967296
           in if m \<ge> 2147483648 then m - 4294967296 else m)
      | _ \<Rightarrow> 0)"

definition double_tilde :: "number option \<Rightarrow> number" where
  "double_tilde v = Fin (of_int (ToInt32 (Number v)))"

text \<open>
  \<open>arr.sort(cmp)\<close>: the stable sort of the language, as an insertion sort. An element
  goes before the first one that the comparator puts after it (a positive result); a
  zero result keeps the original order. This is the order every engine gives when the
  comparator is consistent, as the differences of finite numbers are. When the comparator
  returns NaN, which it does as soon as one of the numbers compared is NaN, the language
  leaves the order to the engine, and an engine's result can differ from the one here,
  which treats NaN like zero. Nothing below is proved of the order of a list that holds
  NaN.
\<close>

fun js_insert :: "('a \<Rightarrow> 'a \<Rightarrow> number) \<Rightarrow> 'a \<Rightarrow> 'a list \<Rightarrow> 'a list" where
  "js_insert cmp a [] = [a]"
| "js_insert cmp a (b # bs) =
     (if js_gt (cmp b a) (Fin 0) then a # b # bs else b # js_insert cmp a bs)"

definition js_sort :: "('a \<Rightarrow> 'a \<Rightarrow> number) \<Rightarrow> 'a list \<Rightarrow> 'a list" where
  "js_sort cmp xs = foldl (\<lambda>acc a. js_insert cmp a acc) [] xs"

section \<open>Data model\<close>

text \<open>
  \<open>PublicOrder\<close>, with the fields the chart reads. An optional field that is undefined
  is \<open>None\<close>.
\<close>

record order =
  order_id :: int
  order_type :: int
  price :: number
  premium :: number
  satoshis_now :: "number option"
  coordinatorShortAlias :: "string option"
  base_amount :: "number option"

record limit =
  limit_price :: number

record coordinator =
  limits :: "nat \<rightharpoonup> limit"

text \<open>A point of a series (\<open>Datum\<close>): the riser carries no order, the landing point does.\<close>

record datum =
  datum_x :: "number option"
  datum_y :: number
  datum_order :: "order option"

record serie =
  serie_id :: string
  serie_data :: "datum list"

text \<open>The component's state, with the initial values of its \<open>useState\<close> calls.\<close>

record state =
  enrichedOrders :: "order list"
  series :: "serie list"
  rangeSteps :: number
  xRange :: number
  xType :: string
  currencyCode :: nat
  center :: "number option"

definition initial_state :: state where
  "initial_state =
     \<lparr>enrichedOrders = [], series = [], rangeSteps = Fin 8, xRange = Fin 8,
      xType = ''premium'', currencyCode = 1, center = None\<rparr>"

section \<open>Normalizer\<close>

text \<open>
  The orders of the book are objects shared with the federation store: the book is a list
  of references into a heap of orders, and the callback of \<open>federation.book.map\<close> writes
  \<open>base_amount\<close> into the object it is given and returns that same object.
  \<open>federation.getCoordinator\<close> is a lookup by alias; on an unknown alias it gives
  undefined, and reading \<open>.limits\<close> of that throws a TypeError.
\<close>

type_synonym ref = nat
type_synonym heap = "ref \<Rightarrow> order"

datatype error = TypeError

definition enrich_order ::
  "(string \<Rightarrow> coordinator option) \<Rightarrow> nat \<Rightarrow> heap \<Rightarrow> ref \<Rightarrow> error + heap" where
  "enrich_order getCoordinator code h r =
     (case coordinatorShortAlias (h r) of
        None \<Rightarrow> Inr h
      | Some alias \<Rightarrow>
          (case getCoordinator alias of
             None \<Rightarrow> Inl TypeError
           | Some c \<Rightarrow>
               (let rate = (case limits c code of Some l \<Rightarrow> limit_price l | None \<Rightarrow> Fin 0)
                in Inr (h(r := (h r)\<lparr>base_amount :=
                          Some (js_div (js_mul (price (h r)) rate) rate)\<rparr>)))))"

text \<open>
  \<open>federation.book.map\<close>: the callback runs on each reference in turn; an exception stops
  the pass, and the writes already made stay in the heap.
\<close>

fun map_book ::
  "(string \<Rightarrow> coordinator option) \<Rightarrow> nat \<Rightarrow> heap \<Rightarrow> ref list \<Rightarrow> heap \<times> (error + ref list)" where
  "map_book getCoordinator code h [] = (h, Inr [])"
| "map_book getCoordinator code h (r # rs) =
     (case enrich_order getCoordinator code h r of
        Inl e \<Rightarrow> (h, Inl e)
      | Inr h' \<Rightarrow>
          (case map_book getCoordinator code h' rs of
             (h'', Inl e) \<Rightarrow> (h'', Inl e)
           | (h'', Inr enriched) \<Rightarrow> (h'', Inr (r # enriched))))"

text \<open>
  The normalizer effect. The later stages only read the orders, so the state keeps the
  orders as read through the references when the pass ends.
\<close>

definition normalizer_effect ::
  "(string \<Rightarrow> coordinator option) \<Rightarrow> ref list \<Rightarrow> heap \<times> state \<Rightarrow> heap \<times> (error + state)" where
  "normalizer_effect getCoordinator book hs =
     (case hs of (h, s) \<Rightarrow>
        if length book > 0 then
          (case map_book getCoordinator (currencyCode s) h book of
             (h', Inl e) \<Rightarrow> (h', Inl e)
           | (h', Inr enriched) \<Rightarrow> (h', Inr (s\<lparr>enrichedOrders := map h' enriched\<rparr>)))
        else (h, Inr s))"

section \<open>Series Builder\<close>

text \<open>The axis metric of an order: \<open>xType === 'base_amount' ? order.base_amount : order.premium\<close>.\<close>

definition metric :: "string \<Rightarrow> order \<Rightarrow> number option" where
  "metric xt ord = (if xt = ''base_amount'' then base_amount ord else Some (premium ord))"

text \<open>The volume an order adds: \<open>(order.satoshis_now ?? 0) / 100000000\<close>.\<close>

definition volume :: "order \<Rightarrow> number" where
  "volume ord = js_div (nullish (satoshis_now ord) (Fin 0)) (Fin 100000000)"

text \<open>
  The \<open>forEach\<close> of \<open>generateSerie\<close>, on its two mutable variables \<open>sumOrders\<close> and
  \<open>serie\<close>.
\<close>

fun forEach_order :: "string \<Rightarrow> number \<times> datum list \<Rightarrow> order list \<Rightarrow> number \<times> datum list" where
  "forEach_order xt (sumOrders, serie) [] = (sumOrders, serie)"
| "forEach_order xt (sumOrders, serie) (ord # rest) =
     (let lastSumOrders = sumOrders;
          sumOrders' = js_add sumOrders (volume ord);
          datum =
            [\<lparr>datum_x = metric xt ord, datum_y = lastSumOrders, datum_order = None\<rparr>,
             \<lparr>datum_x = metric xt ord, datum_y = sumOrders', datum_order = Some ord\<rparr>]
      in forEach_order xt (sumOrders', serie @ datum) rest)"

text \<open>The window test of the filter, with its two strict comparisons.\<close>

definition inline :: "number \<Rightarrow> number \<Rightarrow> datum \<Rightarrow> bool" where
  "inline c xr d =
     (js_gt (Number (datum_x d)) (js_sub c xr) \<and> js_lt (Number (datum_x d)) (js_add c xr))"

definition generateSerie :: "number option \<Rightarrow> number \<Rightarrow> string \<Rightarrow> order list \<Rightarrow> datum list" where
  "generateSerie cen xr xt orders =
     (case cen of
        None \<Rightarrow> []
      | Some c \<Rightarrow> filter (inline c xr) (snd (forEach_order xt (Fin 0, []) orders)))"

section \<open>Domain Clipper/Closer\<close>

definition closeSerie :: "datum list \<Rightarrow> number \<Rightarrow> number \<Rightarrow> datum list" where
  "closeSerie serie limitBottom limitTop =
     (if length serie = 0 then []
      else
        (let serie' =
               (if \<not> js_strict_eq (datum_y (serie ! 0)) (Fin 0)
                then \<lparr>datum_x = Some limitBottom, datum_y = datum_y (serie ! 0),
                       datum_order = None\<rparr> # serie
                else serie);
             endingPoint =
               \<lparr>datum_x = Some limitTop, datum_y = datum_y (serie' ! (length serie' - 1)),
                datum_order = None\<rparr>
         in serie' @ [endingPoint]))"

text \<open>
  \<open>generateSeries\<close>: the sort is in place, so the state's order list is left sorted by
  the active metric.
\<close>

definition order_cmp :: "string \<Rightarrow> order \<Rightarrow> order \<Rightarrow> number" where
  "order_cmp xt order1 order2 =
     (if xt = ''base_amount''
      then js_sub (nullish (base_amount order1) (Fin 0)) (nullish (base_amount order2) (Fin 0))
      else js_sub (premium order1) (premium order2))"

definition generateSeries :: "state \<Rightarrow> state" where
  "generateSeries s =
     (let sortedOrders = js_sort (order_cmp (xType s)) (enrichedOrders s);
          sortedBuyOrders = rev (filter (\<lambda>ord. order_type ord = 0) sortedOrders);
          sortedSellOrders = filter (\<lambda>ord. order_type ord = 1) sortedOrders;
          buySerie = generateSerie (center s) (xRange s) (xType s) sortedBuyOrders;
          sellSerie = generateSerie (center s) (xRange s) (xType s) sortedSellOrders;
          maxX = js_add (nullish (center s) (Fin 0)) (xRange s);
          minX = js_sub (nullish (center s) (Fin 0)) (xRange s)
      in s\<lparr>enrichedOrders := sortedOrders,
            series :=
              [\<lparr>serie_id = ''buy'', serie_data = closeSerie buySerie maxX minX\<rparr>,
               \<lparr>serie_id = ''sell'', serie_data = closeSerie sellSerie minX maxX\<rparr>]\<rparr>)"

text \<open>The effect on \<open>[enrichedOrders, xRange]\<close>.\<close>

definition series_effect :: "state \<Rightarrow> state" where
  "series_effect s = (if length (enrichedOrders s) > 0 then generateSeries s else s)"

section \<open>Center and window\<close>

text \<open>
  The effect that recomputes center, half-width and step. \<open>matchMedian\<close> comes from the
  utilities of the frontend and is a parameter here; \<open>lastDay\<close> is
  \<open>federation.exchange.info?.last_day_nonkyc_btc_premium\<close>, undefined when \<open>None\<close>.
\<close>

definition window_effect ::
  "(number list \<Rightarrow> number option) \<Rightarrow> number option \<Rightarrow> state \<Rightarrow> state" where
  "window_effect median lastDay s =
     (if xType s = ''base_amount'' then
        (let prices = map (\<lambda>ord. nullish (base_amount ord) (Fin 0)) (enrichedOrders s);
             medianValue = double_tilde (median prices);
             maxValue =
               (case take 1 (js_sort (\<lambda>a b. js_sub b a) prices) of
                  [] \<Rightarrow> Fin 1500
                | v # _ \<Rightarrow> v);
             maxRange = js_sub maxValue medianValue;
             rangeSteps' = js_div maxRange (Fin 10)
         in s\<lparr>center := Some medianValue, xRange := maxRange, rangeSteps := rangeSteps'\<rparr>)
      else
        (let s' =
               (if lastDay = None then
                  (let premiums =
                         map (\<lambda>ord. nullish (Some (premium ord)) (Fin 0)) (enrichedOrders s)
                   in s\<lparr>center := Some (double_tilde (median premiums))\<rparr>)
                else s\<lparr>center := lastDay\<rparr>)
         in s'\<lparr>xRange := Fin 8, rangeSteps := Fin (1 / 2)\<rparr>))"

text \<open>
  Modelled from the spec: \<open>matchMedian\<close> of the frontend's utilities is not among the
  sources at hand, and the specification only calls it the median. It is taken as the
  middle value of the list in ascending order, the mean of the two middle values when
  the length is even, and NaN on an empty list, where there are no middle values to add.
\<close>

definition matchMedian :: "number list \<Rightarrow> number option" where
  "matchMedian arr =
     (let nums = js_sort (\<lambda>a b. js_sub a b) arr;
          mid = length arr div 2
      in if arr = [] then Some NaN
         else if length arr mod 2 \<noteq> 0 then Some (nums ! mid)
         else Some (js_div (js_add (nums ! (mid - 1)) (nums ! mid)) (Fin 2)))"

section \<open>Presentation: loading state and zoom controls\<close>

text \<open>
  An icon button: what a click does to the state, and whether the button is disabled. A
  disabled button ignores clicks.
\<close>

record button =
  onClick :: "state \<Rightarrow> state"
  disabled :: bool

definition click :: "button \<Rightarrow> state \<Rightarrow> state" where
  "click b s = (if disabled b then s else onClick b s)"

text \<open>
  The first button (\<open>RemoveCircleOutline\<close>) widens the window, the second
  (\<open>AddCircleOutline\<close>) narrows it. Each handler closes over the half-width and the
  step of the render that made it.
\<close>

definition widen_button :: "state \<Rightarrow> button" where
  "widen_button s =
     \<lparr>onClick = (\<lambda>t. t\<lparr>xRange := js_add (xRange s) (rangeSteps s)\<rparr>), disabled = False\<rparr>"

definition narrow_button :: "state \<Rightarrow> button" where
  "narrow_button s =
     \<lparr>onClick = (\<lambda>t. t\<lparr>xRange := js_sub (xRange s) (rangeSteps s)\<rparr>),
      disabled = js_le (xRange s) (Fin 1)\<rparr>"

datatype view = Loading | Chart button button "serie list"

definition render :: "state \<Rightarrow> view" where
  "render s =
     (if center s = None \<or> length (enrichedOrders s) < 1 then Loading
      else Chart (widen_button s) (narrow_button s) (series s))"

section \<open>Auxiliary definitions\<close>

text \<open>
  The points the loop of \<open>generateSerie\<close> appends when it starts from the running sum
  \<open>s\<close>, without the accumulator.
\<close>

fun emit :: "string \<Rightarrow> number \<Rightarrow> order list \<Rightarrow> datum list" where
  "emit xt s [] = []"
| "emit xt s (ord # rest) =
     \<lparr>datum_x = metric xt ord, datum_y = s, datum_order = None\<rparr> #
     \<lparr>datum_x = metric xt ord, datum_y = js_add s (volume ord), datum_order = Some ord\<rparr> #
     emit xt (js_add s (volume ord)) rest"

text \<open>The volumes of a list of orders, added from the left as the loop adds them.\<close>

definition sum_volumes :: "order list \<Rightarrow> number" where
  "sum_volumes orders = foldl js_add (Fin 0) (map volume orders)"

text \<open>An order whose metric value falls within the visible window.\<close>

definition in_window :: "number \<Rightarrow> number \<Rightarrow> string \<Rightarrow> order \<Rightarrow> bool" where
  "in_window c xr xt ord =
     (js_gt (Number (metric xt ord)) (js_sub c xr) \<and> js_lt (Number (metric xt ord)) (js_add c xr))"

text \<open>A point whose x is a finite number strictly between two bounds.\<close>

definition strictly_inside :: "real \<Rightarrow> real \<Rightarrow> datum \<Rightarrow> bool" where
  "strictly_inside lo hi d =
     (case datum_x d of Some (Fin xv) \<Rightarrow> lo < xv \<and> xv < hi | _ \<Rightarrow> False)"

subsection \<open>The Normalizer's callback on one order\<close>




subsection \<open>Sample data\<close>

text \<open>
  Two sell orders of one coordinator, the first with a premium below the default window
  around 0, the second inside it, and a third sell order whose premium is exactly the
  upper bound of that window; a coordinator with no limits at all, and one with a
  reference price for currency 1.
\<close>

definition sell_far :: order where
  "sell_far =
     \<lparr>order_id = 1, order_type = 1, price = Fin 90, premium = Fin (- 10),
      satoshis_now = Some (Fin 100000000), coordinatorShortAlias = Some ''coord'',
      base_amount = None\<rparr>"

definition sell_near :: order where
  "sell_near =
     \<lparr>order_id = 2, order_type = 1, price = Fin 103, premium = Fin 3,
      satoshis_now = Some (Fin 200000000), coordinatorShortAlias = Some ''coord'',
      base_amount = None\<rparr>"

definition sell_edge :: order where
  "sell_edge =
     \<lparr>order_id = 3, order_type = 1, price = Fin 108, premium = Fin 8,
      satoshis_now = Some (Fin 50000000), coordinatorShortAlias = None,
      base_amount = None\<rparr>"

definition sample_heap :: heap where
  "sample_heap r = (if r = 0 then sell_far else sell_near)"

definition no_limits :: "string \<Rightarrow> coordinator option" where
  "no_limits alias = (if alias = ''coord'' then Some \<lparr>limits = Map.empty\<rparr> else None)"


text \<open>A state at the floor of the zoom: half-width 1 and step 0.5.\<close>

definition zoom_floor_state :: state where
  "zoom_floor_state =
     \<lparr>enrichedOrders = [sell_near], series = [], rangeSteps = Fin (1 / 2), xRange = Fin 1,
      xType = ''premium'', currencyCode = 1, center = Some (Fin 0)\<rparr>"

text \<open>
  Price mode with three orders priced in a currency in which a bitcoin costs more than
  \<open>2^31\<close> units.
\<close>

definition vnd_state :: state where
  "vnd_state =
     \<lparr>enrichedOrders =
        [sell_far\<lparr>base_amount := Some (Fin 2500000000)\<rparr>,
         sell_near\<lparr>base_amount := Some (Fin 2600000000)\<rparr>,
         sell_edge\<lparr>base_amount := Some (Fin 2700000000)\<rparr>],
      series = [], rangeSteps = Fin (1 / 2), xRange = Fin 8,
      xType = ''base_amount'', currencyCode = 1, center = Some (Fin 0)\<rparr>"

section \<open>Properties of the Normalizer\<close>

lemma enrich_order_missing_limit:
  assumes "coordinatorShortAlias (h r) = Some alias" and "getCoordinator alias = Some c"
    and "limits c code = None"
  shows "enrich_order getCoordinator code h r = Inr (h(r := (h r)\<lparr>base_amount := Some NaN\<rparr>))"
proof -
  have "js_div (js_mul (price (h r)) (Fin 0)) (Fin 0) = NaN"
    by (cases "price (h r)") (simp_all add: inf_of_sign_def)
  with assms show ?thesis
    by (simp add: enrich_order_def)
qed






text \<open>
  C1. An order of a known coordinator that has no reference price for the active currency
  should come out with a base amount equal to its own price, and no error. On the sample
  order of price 90 the pass raises no error, but the rate falls back to 0 and the base
  amount is \<open>(90 * 0) / 0\<close>, which is NaN and not the price.
\<close>

theorem normalizer_missing_limit_gives_NaN:
  "(case map_book no_limits 1 sample_heap [0] of
      (h', res) \<Rightarrow>
        res = Inr [0] \<and> price (h' 0) = Fin 90 \<and> base_amount (h' 0) = Some NaN \<and>
        base_amount (h' 0) \<noteq> Some (price (h' 0)))"
  by (simp add: enrich_order_def no_limits_def sample_heap_def sell_far_def inf_of_sign_def)





section \<open>Properties of the Series Builder\<close>

lemma forEach_order_emit:
  "forEach_order xt (s, acc) os = (foldl js_add s (map volume os), acc @ emit xt s os)"
  by (induction os arbitrary: s acc) (simp_all add: Let_def)

lemma emitted_eq: "snd (forEach_order xt (s, []) os) = emit xt s os"
  by (simp add: forEach_order_emit)

lemma emit_length: "length (emit xt s os) = 2 * length os"
  by (induction os arbitrary: s) simp_all

lemma emit_append:
  "emit xt s (pre @ post) = emit xt s pre @ emit xt (foldl js_add s (map volume pre)) post"
  by (induction pre arbitrary: s) simp_all

lemma emit_nth:
  "i < length os \<Longrightarrow>
     emit xt s os ! (2 * i) =
       \<lparr>datum_x = metric xt (os ! i), datum_y = foldl js_add s (map volume (take i os)),
        datum_order = None\<rparr> \<and>
     emit xt s os ! (2 * i + 1) =
       \<lparr>datum_x = metric xt (os ! i),
        datum_y = js_add (foldl js_add s (map volume (take i os))) (volume (os ! i)),
        datum_order = Some (os ! i)\<rparr>"
proof (induction os arbitrary: s i)
  case Nil
  then show ?case by simp
next
  case (Cons a os)
  show ?case
  proof (cases i)
    case 0
    then show ?thesis by simp
  next
    case (Suc j)
    with Cons.prems have "j < length os" by simp
    from Cons.IH[OF this, of "js_add s (volume a)"] Suc show ?thesis by simp
  qed
qed

lemma volume_nonneg:
  assumes "nullish (satoshis_now ord) (Fin 0) = Fin v" "v \<ge> 0"
  shows "\<exists>w\<ge>0. volume ord = Fin w"
proof -
  have "volume ord = Fin (v / 100000000)" using assms by (simp add: volume_def)
  moreover have "v / 100000000 \<ge> 0" using assms by simp
  ultimately show ?thesis by blast
qed

lemma js_le_Fin [simp]: "js_le (Fin a) (Fin b) = (a \<le> b)"
  by (auto simp: js_le_def js_strict_eq_def)

lemma emit_sorted:
  assumes "\<forall>ord\<in>set os. \<exists>v\<ge>0. nullish (satoshis_now ord) (Fin 0) = Fin v"
  shows "sorted_wrt js_le (map datum_y (emit xt (Fin a) os)) \<and>
         (\<forall>d\<in>set (emit xt (Fin a) os). \<exists>b\<ge>a. datum_y d = Fin b)"
  using assms
proof (induction os arbitrary: a)
  case Nil
  then show ?case by simp
next
  case (Cons ord os)
  from Cons.prems obtain v where v: "v \<ge> 0" "nullish (satoshis_now ord) (Fin 0) = Fin v"
    by auto
  then obtain w where w: "w \<ge> 0" "volume ord = Fin w"
    using volume_nonneg by blast
  from Cons.prems have "\<forall>ord\<in>set os. \<exists>v\<ge>0. nullish (satoshis_now ord) (Fin 0) = Fin v"
    by simp
  from Cons.IH[OF this, of "a + w"]
  have ih: "sorted_wrt js_le (map datum_y (emit xt (Fin (a + w)) os))"
    "\<forall>d\<in>set (emit xt (Fin (a + w)) os). \<exists>b\<ge>a + w. datum_y d = Fin b" by auto
  show ?case using ih w by (fastforce simp: )
qed

lemma sorted_filter_y:
  "sorted_wrt js_le (map datum_y ds) \<Longrightarrow> sorted_wrt js_le (map datum_y (filter P ds))"
  by (simp add: sorted_wrt_map sorted_wrt_filter)

text \<open>
  C3. For a group whose orders have non-negative finite amounts (\<open>satoshis_now\<close>, or 0
  when it is undefined), the loop emits exactly two points for each order, at the same x:
  first the running sum before the order, then the running sum after it. The y values
  are non-decreasing in emission order, before the window filter and after it.
\<close>

theorem generateSerie_cumulative_steps:
  assumes "\<forall>ord\<in>set orders. \<exists>v\<ge>0. nullish (satoshis_now ord) (Fin 0) = Fin v"
  shows "length (snd (forEach_order xt (Fin 0, []) orders)) = 2 * length orders \<and>
    (\<forall>i<length orders.
       snd (forEach_order xt (Fin 0, []) orders) ! (2 * i) =
         \<lparr>datum_x = metric xt (orders ! i), datum_y = sum_volumes (take i orders),
          datum_order = None\<rparr> \<and>
       snd (forEach_order xt (Fin 0, []) orders) ! (2 * i + 1) =
         \<lparr>datum_x = metric xt (orders ! i),
          datum_y = js_add (sum_volumes (take i orders)) (volume (orders ! i)),
          datum_order = Some (orders ! i)\<rparr>) \<and>
    sorted_wrt js_le (map datum_y (snd (forEach_order xt (Fin 0, []) orders))) \<and>
    sorted_wrt js_le (map datum_y (generateSerie cen xr xt orders))"
proof -
  have s: "sorted_wrt js_le (map datum_y (emit xt (Fin 0) orders))"
    using emit_sorted[OF assms] by blast
  have g: "sorted_wrt js_le (map datum_y (generateSerie cen xr xt orders))"
    by (cases cen) (simp_all add: generateSerie_def emitted_eq sorted_filter_y[OF s])
  have n: "\<forall>i<length orders.
       emit xt (Fin 0) orders ! (2 * i) =
         \<lparr>datum_x = metric xt (orders ! i), datum_y = sum_volumes (take i orders),
          datum_order = None\<rparr> \<and>
       emit xt (Fin 0) orders ! (2 * i + 1) =
         \<lparr>datum_x = metric xt (orders ! i),
          datum_y = js_add (sum_volumes (take i orders)) (volume (orders ! i)),
          datum_order = Some (orders ! i)\<rparr>"
    unfolding sum_volumes_def using emit_nth by blast
  show ?thesis
    unfolding emitted_eq using s g n emit_length by blast
qed


lemma inline_metric:
  "datum_x d = metric xt ord \<Longrightarrow> inline c xr d = in_window c xr xt ord"
  by (simp add: inline_def in_window_def)

lemma filter_emit_outside:
  "\<forall>p\<in>set os. \<not> in_window c xr xt p \<Longrightarrow> filter (inline c xr) (emit xt s os) = []"
  by (induction os arbitrary: s) (simp_all add: inline_metric)

lemma sum_volumes_snoc: "sum_volumes (pre @ [ord]) = js_add (sum_volumes pre) (volume ord)"
  by (simp add: sum_volumes_def)

text \<open>
  C4, as amended. The running sum never restarts at the window: the last y of a group's
  filtered series is the sum of the volumes of all orders of the group up to and
  including the last one whose metric falls within the window, whether or not the
  earlier ones are visible. It is the sum of the visible orders' volumes when every
  earlier order is visible too.
\<close>

theorem last_y_sums_up_to_last_visible:
  assumes "orders = pre @ ord # post"
    and "in_window c xr xt ord"
    and "\<forall>p\<in>set post. \<not> in_window c xr xt p"
  shows "generateSerie (Some c) xr xt orders \<noteq> [] \<and>
         datum_y (last (generateSerie (Some c) xr xt orders)) = sum_volumes (pre @ [ord]) \<and>
         ((\<forall>p\<in>set pre. in_window c xr xt p) \<longrightarrow>
            datum_y (last (generateSerie (Some c) xr xt orders)) =
              sum_volumes (filter (in_window c xr xt) orders))"
proof -
  let ?s = "sum_volumes pre"
  let ?d1 = "\<lparr>datum_x = metric xt ord, datum_y = ?s, datum_order = None\<rparr>"
  let ?d2 = "\<lparr>datum_x = metric xt ord, datum_y = js_add ?s (volume ord), datum_order = Some ord\<rparr>"
  have "emit xt (Fin 0) orders = emit xt (Fin 0) pre @ emit xt ?s (ord # post)"
    using assms(1) by (simp add: emit_append sum_volumes_def)
  then have "generateSerie (Some c) xr xt orders =
      filter (inline c xr) (emit xt (Fin 0) pre) @ filter (inline c xr) (emit xt ?s (ord # post))"
    by (simp add: generateSerie_def emitted_eq)
  moreover have "filter (inline c xr) (emit xt ?s (ord # post)) = [?d1, ?d2]"
    using assms(2) filter_emit_outside[OF assms(3)] by (simp add: inline_metric)
  ultimately have g: "generateSerie (Some c) xr xt orders =
      filter (inline c xr) (emit xt (Fin 0) pre) @ [?d1, ?d2]"
    by simp
  have y: "datum_y (last (generateSerie (Some c) xr xt orders)) = sum_volumes (pre @ [ord])"
    by (simp add: g sum_volumes_snoc)
  have "filter (in_window c xr xt) orders = pre @ [ord]" if "\<forall>p\<in>set pre. in_window c xr xt p"
    using that assms by simp
  with g y show ?thesis by simp
qed

lemma inline_Fin:
  "inline (Fin c) (Fin r) d = strictly_inside (c - r) (c + r) d"
proof (cases "datum_x d")
  case None
  then show ?thesis by (simp add: inline_def strictly_inside_def Number_def js_gt_def)
next
  case (Some n)
  then show ?thesis
    by (cases n) (auto simp: inline_def strictly_inside_def Number_def js_gt_def js_sub_def)
qed

text \<open>
  C5. With a finite center \<open>c\<close> and half-width \<open>r\<close>, the series is the emitted points
  whose x is a finite number strictly between \<open>c - r\<close> and \<open>c + r\<close>, in emission order:
  every point kept lies strictly inside, and a point at or beyond either bound is dropped.
  Whatever the center and the half-width are, a point that is kept passed both strict
  comparisons.
\<close>

theorem generateSerie_open_interval:
  "generateSerie (Some (Fin c)) (Fin r) xt orders =
     filter (strictly_inside (c - r) (c + r)) (snd (forEach_order xt (Fin 0, []) orders)) \<and>
   (\<forall>d\<in>set (generateSerie (Some (Fin c)) (Fin r) xt orders).
      \<exists>xv. datum_x d = Some (Fin xv) \<and> c - r < xv \<and> xv < c + r) \<and>
   (\<forall>d\<in>set (snd (forEach_order xt (Fin 0, []) orders)).
      \<forall>xv. datum_x d = Some (Fin xv) \<and> (xv \<le> c - r \<or> c + r \<le> xv) \<longrightarrow>
        d \<notin> set (generateSerie (Some (Fin c)) (Fin r) xt orders)) \<and>
   (\<forall>d\<in>set (generateSerie (Some cn) xn xt orders).
      js_gt (Number (datum_x d)) (js_sub cn xn) \<and> js_lt (Number (datum_x d)) (js_add cn xn))"
proof -
  have n: "\<forall>d\<in>set (generateSerie (Some cn) xn xt orders).
      js_gt (Number (datum_x d)) (js_sub cn xn) \<and> js_lt (Number (datum_x d)) (js_add cn xn)"
    by (simp add: generateSerie_def inline_def)
  have inl: "inline (Fin c) (Fin r) = strictly_inside (c - r) (c + r)"
    by (rule ext) (rule inline_Fin)
  have g: "generateSerie (Some (Fin c)) (Fin r) xt orders =
     filter (strictly_inside (c - r) (c + r)) (snd (forEach_order xt (Fin 0, []) orders))"
    by (simp add: generateSerie_def inl)
  have a: "\<exists>xv. datum_x d = Some (Fin xv) \<and> c - r < xv \<and> xv < c + r"
    if "strictly_inside (c - r) (c + r) d" for d
    using that by (auto simp: strictly_inside_def split: option.splits number.splits)
  have b: "\<not> strictly_inside (c - r) (c + r) d"
    if "datum_x d = Some (Fin xv)" "xv \<le> c - r \<or> c + r \<le> xv" for d xv
    using that by (auto simp: strictly_inside_def)
  have k: "\<forall>d\<in>set (generateSerie (Some (Fin c)) (Fin r) xt orders).
      \<exists>xv. datum_x d = Some (Fin xv) \<and> c - r < xv \<and> xv < c + r"
    unfolding g using a by simp
  have o: "\<forall>d\<in>set (snd (forEach_order xt (Fin 0, []) orders)).
      \<forall>xv. datum_x d = Some (Fin xv) \<and> (xv \<le> c - r \<or> c + r \<le> xv) \<longrightarrow>
        d \<notin> set (generateSerie (Some (Fin c)) (Fin r) xt orders)"
    unfolding g using b by simp
  show ?thesis
    by (intro conjI) (rule g, rule k, rule o, rule n)
qed

lemma inline_not_numeric:
  "datum_x d = None \<or> datum_x d = Some NaN \<Longrightarrow> \<not> inline c xr d"
  by (auto simp: inline_def Number_def js_gt_def)

text \<open>
  C10. In price mode an order whose base amount is undefined or NaN leaves no point in the
  series, while the orders after it are accumulated from a running sum that includes its
  volume. No point of the series has an undefined or NaN x.
\<close>

theorem non_numeric_base_amount_dropped:
  assumes "base_amount ord = None \<or> base_amount ord = Some NaN"
  shows "generateSerie (Some c) xr ''base_amount'' (pre @ ord # post) =
           generateSerie (Some c) xr ''base_amount'' pre @
           filter (inline c xr)
             (snd (forEach_order ''base_amount'' (js_add (sum_volumes pre) (volume ord), []) post)) \<and>
         \<lparr>datum_x = base_amount ord, datum_y = sum_volumes pre, datum_order = None\<rparr>
           \<notin> set (generateSerie (Some c) xr ''base_amount'' (pre @ ord # post)) \<and>
         \<lparr>datum_x = base_amount ord, datum_y = js_add (sum_volumes pre) (volume ord),
          datum_order = Some ord\<rparr>
           \<notin> set (generateSerie (Some c) xr ''base_amount'' (pre @ ord # post)) \<and>
         (\<forall>d\<in>set (generateSerie (Some c) xr ''base_amount'' (pre @ ord # post)).
            datum_x d \<noteq> None \<and> datum_x d \<noteq> Some NaN)"
proof -
  have m: "metric ''base_amount'' ord = base_amount ord"
    by (simp add: metric_def)
  have out: "\<not> inline c xr d" if "datum_x d = base_amount ord" for d
    using that assms inline_not_numeric by metis
  have g: "generateSerie (Some c) xr ''base_amount'' (pre @ ord # post) =
           generateSerie (Some c) xr ''base_amount'' pre @
           filter (inline c xr)
             (snd (forEach_order ''base_amount'' (js_add (sum_volumes pre) (volume ord), []) post))"
    by (simp add: generateSerie_def emitted_eq emit_append sum_volumes_def m out)
  have k: "\<forall>d\<in>set (generateSerie (Some c) xr ''base_amount'' os). \<not> (datum_x d = None \<or> datum_x d = Some NaN)" for os
  proof
    fix d assume "d \<in> set (generateSerie (Some c) xr ''base_amount'' os)"
    then have "inline c xr d" by (simp add: generateSerie_def)
    then show "\<not> (datum_x d = None \<or> datum_x d = Some NaN)"
      using inline_not_numeric by blast
  qed
  have n1: "\<lparr>datum_x = base_amount ord, datum_y = y, datum_order = q\<rparr>
           \<notin> set (generateSerie (Some c) xr ''base_amount'' os)" for y q os
    using out by (auto simp: generateSerie_def)
  have k': "\<forall>d\<in>set (generateSerie (Some c) xr ''base_amount'' (pre @ ord # post)).
            datum_x d \<noteq> None \<and> datum_x d \<noteq> Some NaN"
    using k [of "pre @ ord # post"] by simp
  show ?thesis
    by (intro conjI) (rule g, rule n1, rule n1, rule k')
qed


lemmas sample_defs = sell_far_def sell_near_def sell_edge_def
lemmas eval_defs = generateSerie_def inline_def metric_def volume_def nullish_def Number_def
  js_gt_def js_sub_def sum_volumes_def in_window_def Let_def

text \<open>C3 on the two sample sell orders: four points emitted, the two visible ones at 1 and 3.\<close>

theorem generateSerie_cumulative_steps_witness:
  "(\<exists>v\<ge>0. nullish (satoshis_now sell_far) (Fin 0) = Fin v) \<and>
   (\<exists>v\<ge>0. nullish (satoshis_now sell_near) (Fin 0) = Fin v) \<and>
   length (snd (forEach_order ''premium'' (Fin 0, []) [sell_far, sell_near])) = 4 \<and>
   sorted_wrt js_le
     (map datum_y (generateSerie (Some (Fin 0)) (Fin 8) ''premium'' [sell_far, sell_near])) \<and>
   map datum_y (generateSerie (Some (Fin 0)) (Fin 8) ''premium'' [sell_far, sell_near]) =
     [Fin 1, Fin 3]"
proof -
  have f: "\<exists>v\<ge>0. nullish (satoshis_now sell_far) (Fin 0) = Fin v"
    by (simp add: nullish_def sell_far_def)
  have n: "\<exists>v\<ge>0. nullish (satoshis_now sell_near) (Fin 0) = Fin v"
    by (simp add: nullish_def sell_near_def)
  have h: "\<forall>ord\<in>set [sell_far, sell_near]. \<exists>v\<ge>0. nullish (satoshis_now ord) (Fin 0) = Fin v"
    using f n by simp
  have v: "map datum_y (generateSerie (Some (Fin 0)) (Fin 8) ''premium'' [sell_far, sell_near]) =
     [Fin 1, Fin 3]"
    by (simp add: eval_defs sample_defs)
  from generateSerie_cumulative_steps [OF h, of "''premium''" "Some (Fin 0)" "Fin 8"] f n v show ?thesis
    by simp
qed

text \<open>
  The amended C4 on the three sample sell orders: the last visible one is the second, and
  the last y is 3, the volume of the hidden first order included.
\<close>

theorem last_y_sums_up_to_last_visible_witness:
  "in_window (Fin 0) (Fin 8) ''premium'' sell_near \<and>
   \<not> in_window (Fin 0) (Fin 8) ''premium'' sell_edge \<and>
   generateSerie (Some (Fin 0)) (Fin 8) ''premium'' [sell_far, sell_near, sell_edge] \<noteq> [] \<and>
   datum_y (last (generateSerie (Some (Fin 0)) (Fin 8) ''premium''
                    [sell_far, sell_near, sell_edge])) =
     sum_volumes [sell_far, sell_near] \<and>
   sum_volumes [sell_far, sell_near] = Fin 3"
proof -
  have a: "[sell_far, sell_near, sell_edge] = [sell_far] @ sell_near # [sell_edge]"
    by simp
  have b: "in_window (Fin 0) (Fin 8) ''premium'' sell_near"
    by (simp add: eval_defs sample_defs)
  have c: "\<not> in_window (Fin 0) (Fin 8) ''premium'' sell_edge"
    by (simp add: eval_defs sample_defs)
  have d: "\<forall>p\<in>set [sell_edge]. \<not> in_window (Fin 0) (Fin 8) ''premium'' p"
    using c by simp
  have e: "sum_volumes [sell_far, sell_near] = Fin 3"
    by (simp add: eval_defs sample_defs)
  from last_y_sums_up_to_last_visible [OF a b d] b c e show ?thesis
    by simp
qed

text \<open>
  C4 as stated fails: with a sell order below the window before a visible one, the last y
  is 3 while the visible orders' volumes add up to 2.
\<close>

theorem last_y_window_sum_counterexample:
  "datum_y (last (generateSerie (Some (Fin 0)) (Fin 8) ''premium'' [sell_far, sell_near])) \<noteq>
     sum_volumes (filter (in_window (Fin 0) (Fin 8) ''premium'') [sell_far, sell_near])"
  by (simp add: eval_defs sample_defs)

text \<open>C5 on a sell order whose premium is exactly the upper bound 8: its riser is dropped.\<close>

theorem generateSerie_open_interval_witness:
  "\<lparr>datum_x = Some (Fin 8), datum_y = Fin 2, datum_order = None\<rparr>
     \<in> set (snd (forEach_order ''premium'' (Fin 0, []) [sell_near, sell_edge])) \<and>
   (0::real) + 8 \<le> 8 \<and>
   \<lparr>datum_x = Some (Fin 8), datum_y = Fin 2, datum_order = None\<rparr>
     \<notin> set (generateSerie (Some (Fin 0)) (Fin 8) ''premium'' [sell_near, sell_edge]) \<and>
   generateSerie (Some (Fin 0)) (Fin 8) ''premium'' [sell_near, sell_edge] =
     [\<lparr>datum_x = Some (Fin 3), datum_y = Fin 0, datum_order = None\<rparr>,
      \<lparr>datum_x = Some (Fin 3), datum_y = Fin 2, datum_order = Some sell_near\<rparr>]"
proof -
  let ?d = "\<lparr>datum_x = Some (Fin 8), datum_y = Fin 2, datum_order = None\<rparr>"
  have m: "?d \<in> set (snd (forEach_order ''premium'' (Fin 0, []) [sell_near, sell_edge]))"
    by (simp add: eval_defs sample_defs)
  have x: "datum_x ?d = Some (Fin 8) \<and> ((8::real) \<le> 0 - 8 \<or> 0 + 8 \<le> (8::real))"
    by simp
  have g: "generateSerie (Some (Fin 0)) (Fin 8) ''premium'' [sell_near, sell_edge] =
     [\<lparr>datum_x = Some (Fin 3), datum_y = Fin 0, datum_order = None\<rparr>,
      \<lparr>datum_x = Some (Fin 3), datum_y = Fin 2, datum_order = Some sell_near\<rparr>]"
    by (simp add: eval_defs sample_defs)
  from generateSerie_open_interval [of 0 8 "''premium''" "[sell_near, sell_edge]" "Fin 0" "Fin 8"] m x
  have "?d \<notin> set (generateSerie (Some (Fin 0)) (Fin 8) ''premium'' [sell_near, sell_edge])"
    by blast
  with m g show ?thesis by simp
qed

text \<open>
  C10 on an order with no base amount before a priced one: only the second order's points
  appear, and they start from the first order's volume.
\<close>

theorem non_numeric_base_amount_dropped_witness:
  "(base_amount sell_far = None \<or> base_amount sell_far = Some NaN) \<and>
   generateSerie (Some (Fin 100)) (Fin 10) ''base_amount''
       [sell_far, sell_near\<lparr>base_amount := Some (Fin 103)\<rparr>] =
     [\<lparr>datum_x = Some (Fin 103), datum_y = Fin 1, datum_order = None\<rparr>,
      \<lparr>datum_x = Some (Fin 103), datum_y = Fin 3,
       datum_order = Some (sell_near\<lparr>base_amount := Some (Fin 103)\<rparr>)\<rparr>]"
proof -
  have h: "base_amount sell_far = None \<or> base_amount sell_far = Some NaN"
    by (simp add: sell_far_def)
  have r: "generateSerie (Some (Fin 100)) (Fin 10) ''base_amount'' [] @
           filter (inline (Fin 100) (Fin 10))
             (snd (forEach_order ''base_amount''
                (js_add (sum_volumes []) (volume sell_far), [])
                [sell_near\<lparr>base_amount := Some (Fin 103)\<rparr>])) =
     [\<lparr>datum_x = Some (Fin 103), datum_y = Fin 1, datum_order = None\<rparr>,
      \<lparr>datum_x = Some (Fin 103), datum_y = Fin 3,
       datum_order = Some (sell_near\<lparr>base_amount := Some (Fin 103)\<rparr>)\<rparr>]"
    by (simp add: eval_defs sample_defs)
  from non_numeric_base_amount_dropped [OF h, of "Fin 100" "Fin 10" "[]" "[sell_near\<lparr>base_amount := Some (Fin 103)\<rparr>]"] h r
  show ?thesis by simp
qed

section \<open>Properties of the Domain Clipper/Closer\<close>

text \<open>
  C7, as amended. The closed form of a non-empty series ends with the appended point at
  \<open>limitTop\<close>, which carries the y of the last real point. When the y of the first point
  is not zero, the series begins with the prepended point at \<open>limitBottom\<close> with that y,
  and so spans from \<open>limitBottom\<close> to \<open>limitTop\<close>; when it is zero, nothing is
  prepended and the series begins with its first real point.
\<close>

theorem closeSerie_closes:
  assumes "serie \<noteq> []"
  shows "last (closeSerie serie b t) =
           \<lparr>datum_x = Some t, datum_y = datum_y (last serie), datum_order = None\<rparr> \<and>
         (\<not> js_strict_eq (datum_y (hd serie)) (Fin 0) \<longrightarrow>
            closeSerie serie b t =
              \<lparr>datum_x = Some b, datum_y = datum_y (hd serie), datum_order = None\<rparr> # serie @
              [\<lparr>datum_x = Some t, datum_y = datum_y (last serie), datum_order = None\<rparr>]) \<and>
         (js_strict_eq (datum_y (hd serie)) (Fin 0) \<longrightarrow>
            closeSerie serie b t =
              serie @ [\<lparr>datum_x = Some t, datum_y = datum_y (last serie), datum_order = None\<rparr>])"
proof -
  have h: "serie ! 0 = hd serie"
    using assms by (simp add: hd_conv_nth)
  have l: "serie ! (length serie - 1) = last serie"
    using assms by (simp add: last_conv_nth)
  have l': "(d # serie) ! length serie = last serie" for d
    using assms l by (cases serie) simp_all
  show ?thesis
    using assms h l l' by (simp add: closeSerie_def Let_def)
qed

text \<open>
  The amended C7 on the visible points of the two sample sell orders, whose first y is 1:
  both synthetic points are there.
\<close>

theorem closeSerie_closes_witness:
  "generateSerie (Some (Fin 0)) (Fin 8) ''premium'' [sell_far, sell_near] \<noteq> [] \<and>
   \<not> js_strict_eq
       (datum_y (hd (generateSerie (Some (Fin 0)) (Fin 8) ''premium'' [sell_far, sell_near])))
       (Fin 0) \<and>
   closeSerie (generateSerie (Some (Fin 0)) (Fin 8) ''premium'' [sell_far, sell_near])
       (Fin (- 8)) (Fin 8) =
     [\<lparr>datum_x = Some (Fin (- 8)), datum_y = Fin 1, datum_order = None\<rparr>,
      \<lparr>datum_x = Some (Fin 3), datum_y = Fin 1, datum_order = None\<rparr>,
      \<lparr>datum_x = Some (Fin 3), datum_y = Fin 3, datum_order = Some sell_near\<rparr>,
      \<lparr>datum_x = Some (Fin 8), datum_y = Fin 3, datum_order = None\<rparr>]"
proof -
  have g: "generateSerie (Some (Fin 0)) (Fin 8) ''premium'' [sell_far, sell_near] =
     [\<lparr>datum_x = Some (Fin 3), datum_y = Fin 1, datum_order = None\<rparr>,
      \<lparr>datum_x = Some (Fin 3), datum_y = Fin 3, datum_order = Some sell_near\<rparr>]"
    by (simp add: eval_defs sample_defs)
  have n: "generateSerie (Some (Fin 0)) (Fin 8) ''premium'' [sell_far, sell_near] \<noteq> []"
    by (simp add: g)
  have z: "\<not> js_strict_eq
       (datum_y (hd (generateSerie (Some (Fin 0)) (Fin 8) ''premium'' [sell_far, sell_near])))
       (Fin 0)"
    by (simp add: g js_strict_eq_def)
  from closeSerie_closes [OF n, of "Fin (- 8)" "Fin 8"] n z show ?thesis
    by (simp add: g)
qed

text \<open>
  C7 as stated fails: the series of the one visible sell order starts at y = 0, nothing is
  prepended, and the closed series has no point at the bottom limit -8.
\<close>

theorem closeSerie_no_bottom_point_counterexample:
  "Some (Fin (- 8)) \<notin> set (map datum_x
     (closeSerie (generateSerie (Some (Fin 0)) (Fin 8) ''premium'' [sell_near]) (Fin (- 8)) (Fin 8)))"
  by (simp add: eval_defs sample_defs closeSerie_def js_strict_eq_def)

section \<open>Properties of the window and the zoom controls\<close>

lemma js_sort_snoc: "js_sort cmp (xs @ [a]) = js_insert cmp a (js_sort cmp xs)"
  by (simp add: js_sort_def)

lemma js_insert_desc_hd:
  "\<exists>ws'. js_insert (\<lambda>a b. js_sub b a) (Fin v) (map Fin ws) = map Fin ws' \<and> ws' \<noteq> [] \<and>
          hd ws' = (if ws = [] then v else max v (hd ws))"
proof (induction ws)
  case Nil
  have "js_insert (\<lambda>a b. js_sub b a) (Fin v) (map Fin []) = map Fin [v]" by simp
  then show ?case by fastforce
next
  case (Cons w ws)
  show ?case
  proof (cases "v > w")
    case True
    then have "js_insert (\<lambda>a b. js_sub b a) (Fin v) (map Fin (w # ws)) = map Fin (v # w # ws)"
      by (simp add: js_gt_def js_sub_def)
    moreover have "hd (v # w # ws) = max v (hd (w # ws))" using True by simp
    ultimately show ?thesis by (metis list.distinct(1))
  next
    case False
    from Cons.IH obtain ws' where
      ws': "js_insert (\<lambda>a b. js_sub b a) (Fin v) (map Fin ws) = map Fin ws'" by blast
    with False
    have "js_insert (\<lambda>a b. js_sub b a) (Fin v) (map Fin (w # ws)) = map Fin (w # ws')"
      by (simp add: js_gt_def js_sub_def)
    moreover have "hd (w # ws') = max v (hd (w # ws))" using False by simp
    ultimately show ?thesis by (metis list.distinct(1))
  qed
qed

lemma js_sort_desc_hd:
  "vs \<noteq> [] \<Longrightarrow>
     \<exists>ws. js_sort (\<lambda>a b. js_sub b a) (map Fin vs) = map Fin ws \<and> ws \<noteq> [] \<and> hd ws = Max (set vs)"
proof (induction vs rule: rev_induct)
  case Nil
  then show ?case by simp
next
  case (snoc v vs)
  show ?case
  proof (cases "vs = []")
    case True
    have "js_sort (\<lambda>a b. js_sub b a) (map Fin [v]) = map Fin [v]"
      by (simp add: js_sort_def)
    with True show ?thesis by (intro exI [of _ "[v]"]) simp
  next
    case False
    from snoc.IH [OF False] obtain ws where
      ws: "js_sort (\<lambda>a b. js_sub b a) (map Fin vs) = map Fin ws" "ws \<noteq> []" "hd ws = Max (set vs)"
      by blast
    from js_insert_desc_hd [of v ws] obtain ws' where
      ws': "js_insert (\<lambda>a b. js_sub b a) (Fin v) (map Fin ws) = map Fin ws'" "ws' \<noteq> []"
        "hd ws' = max v (hd ws)"
      using ws(2) by auto
    have "js_sort (\<lambda>a b. js_sub b a) (map Fin (vs @ [v])) = map Fin ws'"
      using ws(1) ws'(1) by (simp add: js_sort_snoc)
    moreover have "hd ws' = Max (set (vs @ [v]))"
      using ws'(3) ws(3) False by (simp add: max.commute)
    ultimately show ?thesis using ws'(2) by blast
  qed
qed

lemma double_tilde_floor:
  assumes "0 \<le> m" "m < 2147483648"
  shows "double_tilde (Some (Fin m)) = Fin (of_int \<lfloor>m\<rfloor>)"
proof -
  have a: "0 \<le> \<lfloor>m\<rfloor>" using assms(1) by simp
  have b: "\<lfloor>m\<rfloor> < 2147483648" using assms(2) by (simp add: floor_less_iff)
  from a b have "\<lfloor>m\<rfloor> mod 4294967296 = \<lfloor>m\<rfloor>" by simp
  with a b assms(1) show ?thesis
    by (simp add: double_tilde_def Number_def ToInt32_def Let_def)
qed

text \<open>
  In price mode, over a non-empty list of orders whose base amounts are finite numbers, a
  missing base amount counting as 0: when the median \<open>m\<close> of these values is
  non-negative and below \<open>2^31\<close>, a window recomputation sets center to \<open>m\<close> rounded
  down, the half-width to the largest value minus that center, and the step to a tenth
  of the half-width.
\<close>

lemma window_effect_price_mode_in_range:
  assumes "xType s = ''base_amount''"
    and "map (\<lambda>ord. nullish (base_amount ord) (Fin 0)) (enrichedOrders s) = map Fin vs"
    and "vs \<noteq> []"
    and "median (map Fin vs) = Some (Fin m)"
    and "0 \<le> m" and "m < 2147483648"
  shows "center (window_effect median lastDay s) = Some (Fin (of_int \<lfloor>m\<rfloor>)) \<and>
         xRange (window_effect median lastDay s) = Fin (Max (set vs) - of_int \<lfloor>m\<rfloor>) \<and>
         rangeSteps (window_effect median lastDay s) = Fin ((Max (set vs) - of_int \<lfloor>m\<rfloor>) / 10)"
proof -
  from js_sort_desc_hd [OF assms(3)] obtain ws where
    ws: "js_sort (\<lambda>a b. js_sub b a) (map Fin vs) = map Fin ws" "ws \<noteq> []" "hd ws = Max (set vs)"
    by blast
  have mx: "(case take 1 (js_sort (\<lambda>a b. js_sub b a) (map Fin vs)) of
              [] \<Rightarrow> Fin 1500 | v # _ \<Rightarrow> v) = Fin (Max (set vs))"
    using ws by (cases ws) simp_all
  have md: "double_tilde (median (map Fin vs)) = Fin (of_int \<lfloor>m\<rfloor>)"
    using assms(4) double_tilde_floor [OF assms(5,6)] by simp
  have w: "window_effect median lastDay s =
      s\<lparr>center := Some (Fin (of_int \<lfloor>m\<rfloor>)),
        xRange := js_sub (Fin (Max (set vs))) (Fin (of_int \<lfloor>m\<rfloor>)),
        rangeSteps := js_div (js_sub (Fin (Max (set vs))) (Fin (of_int \<lfloor>m\<rfloor>))) (Fin 10)\<rparr>"
    using assms(1) mx by (simp add: window_effect_def Let_def assms(2) md)
  show ?thesis
    by (simp add: w js_sub_def)
qed

text \<open>
  C8. In price mode a window recomputation should set center to the median of the base
  amounts rounded down, the half-width to the largest base amount minus that center, and
  the step to a tenth of the half-width. On three orders priced 2500000000, 2600000000
  and 2700000000 the median is 2600000000, but \<open>~~\<close> reduces it to 32 bits: center
  comes out as -1694967296, and the half-width as 4394967296 instead of 100000000.
\<close>

theorem price_window_center_wraps_at_32_bits:
  "xType vnd_state = ''base_amount'' \<and>
   map (\<lambda>ord. nullish (base_amount ord) (Fin 0)) (enrichedOrders vnd_state) =
     [Fin 2500000000, Fin 2600000000, Fin 2700000000] \<and>
   matchMedian [Fin 2500000000, Fin 2600000000, Fin 2700000000] = Some (Fin 2600000000) \<and>
   center (window_effect matchMedian None vnd_state) = Some (Fin (- 1694967296)) \<and>
   center (window_effect matchMedian None vnd_state) \<noteq> Some (Fin 2600000000) \<and>
   xRange (window_effect matchMedian None vnd_state) = Fin 4394967296 \<and>
   xRange (window_effect matchMedian None vnd_state) \<noteq> Fin (2700000000 - 2600000000) \<and>
   rangeSteps (window_effect matchMedian None vnd_state) = Fin (4394967296 / 10)"
  by (simp add: vnd_state_def window_effect_def sell_far_def sell_near_def sell_edge_def
      nullish_def matchMedian_def js_sort_def js_gt_def js_sub_def Let_def double_tilde_def
      Number_def ToInt32_def)

text \<open>
  C9. The button that narrows the window by one step is disabled exactly when the
  half-width is at most 1, and a click on it then changes nothing; the button that widens
  the window is never disabled. Both are shown whenever the chart is.
\<close>

theorem zoom_controls_guard:
  "disabled (narrow_button s) = js_le (xRange s) (Fin 1) \<and>
   (\<forall>r. xRange s = Fin r \<longrightarrow> disabled (narrow_button s) = (r \<le> 1)) \<and>
   \<not> disabled (widen_button s) \<and>
   click (widen_button s) s = s\<lparr>xRange := js_add (xRange s) (rangeSteps s)\<rparr> \<and>
   click (narrow_button s) s =
     (if js_le (xRange s) (Fin 1) then s else s\<lparr>xRange := js_sub (xRange s) (rangeSteps s)\<rparr>) \<and>
   (center s \<noteq> None \<and> enrichedOrders s \<noteq> [] \<longrightarrow>
      render s = Chart (widen_button s) (narrow_button s) (series s))"
  by (auto simp: narrow_button_def widen_button_def click_def render_def js_le_def js_strict_eq_def)

text \<open>
  C9 at half-width 1 and step 0.5: the narrowing button is disabled and inert, the
  widening button takes the half-width to 1.5.
\<close>

theorem zoom_controls_guard_witness:
  "xRange zoom_floor_state = Fin 1 \<and>
   center zoom_floor_state \<noteq> None \<and> enrichedOrders zoom_floor_state \<noteq> [] \<and>
   render zoom_floor_state =
     Chart (widen_button zoom_floor_state) (narrow_button zoom_floor_state) [] \<and>
   disabled (narrow_button zoom_floor_state) \<and>
   click (narrow_button zoom_floor_state) zoom_floor_state = zoom_floor_state \<and>
   xRange (click (widen_button zoom_floor_state) zoom_floor_state) = Fin (3 / 2)"
proof -
  have x: "xRange zoom_floor_state = Fin 1"
    by (simp add: zoom_floor_state_def)
  have r: "rangeSteps zoom_floor_state = Fin (1 / 2)"
    by (simp add: zoom_floor_state_def)
  have c: "center zoom_floor_state \<noteq> None \<and> enrichedOrders zoom_floor_state \<noteq> []"
    by (simp add: zoom_floor_state_def)
  have s: "series zoom_floor_state = []"
    by (simp add: zoom_floor_state_def)
  from zoom_controls_guard [of zoom_floor_state] x r c s show ?thesis
    by (simp add: js_le_def js_strict_eq_def)
qed

text \<open>
  C6, as amended. With center undefined \<open>generateSerie\<close> returns the empty list
  at once. With an empty order list both series are empty and the loading state is shown,
  but center does not stay undefined: a window recomputation sets it to the external 24h
  premium when the axis is the premium and that value is available, and to
  \<open>~~median([])\<close> otherwise, which is 0 whenever the median of the empty list is not a
  finite number.
\<close>

theorem undefined_center_empty_series:
  "generateSerie None xr xt orders = [] \<and>
   (enrichedOrders s = [] \<longrightarrow>
      center (window_effect median lastDay s) =
        (if xType s \<noteq> ''base_amount'' \<and> lastDay \<noteq> None then lastDay
         else Some (double_tilde (median []))) \<and>
      ((\<forall>m. median [] \<noteq> Some (Fin m)) \<longrightarrow> double_tilde (median []) = Fin 0) \<and>
      series (series_effect s) = series s \<and>
      map serie_data (series (generateSeries s)) = [[], []] \<and>
      render (window_effect median lastDay s) = Loading)"
proof -
  have a: "generateSerie None xr xt orders = []"
    by (simp add: generateSerie_def)
  have b: "center (window_effect median lastDay s) =
        (if xType s \<noteq> ''base_amount'' \<and> lastDay \<noteq> None then lastDay
         else Some (double_tilde (median [])))" if "enrichedOrders s = []"
    using that by (cases lastDay) (simp_all add: window_effect_def Let_def)
  have z: "double_tilde (median []) = Fin 0" if "\<forall>m. median [] \<noteq> Some (Fin m)"
  proof (cases "median []")
    case None
    then show ?thesis by (simp add: double_tilde_def Number_def ToInt32_def)
  next
    case (Some n)
    with that show ?thesis
      by (cases n) (simp_all add: double_tilde_def Number_def ToInt32_def)
  qed
  have e: "enrichedOrders (window_effect median lastDay s) = enrichedOrders s"
    by (simp add: window_effect_def Let_def)
  have g: "generateSerie cen xr xt [] = []" for cen xr xt
    by (cases cen) (simp_all add: generateSerie_def)
  have c: "map serie_data (series (generateSeries s)) = [[], []]" if "enrichedOrders s = []"
    using that by (simp add: generateSeries_def Let_def js_sort_def g closeSerie_def)
  have d: "series (series_effect s) = series s" if "enrichedOrders s = []"
    using that by (simp add: series_effect_def)
  have f: "render (window_effect median lastDay s) = Loading" if "enrichedOrders s = []"
    using that e by (simp add: render_def)
  from a b z c d f show ?thesis by blast
qed

text \<open>
  The amended C6 on the initial state: center becomes 0 without an external premium, and
  the premium 5 with it.
\<close>

theorem undefined_center_empty_series_witness:
  "enrichedOrders initial_state = [] \<and>
   matchMedian [] = Some NaN \<and>
   center (window_effect matchMedian None initial_state) = Some (Fin 0) \<and>
   center (window_effect matchMedian (Some (Fin 5)) initial_state) = Some (Fin 5) \<and>
   series (series_effect initial_state) = [] \<and>
   map serie_data (series (generateSeries initial_state)) = [[], []] \<and>
   render (window_effect matchMedian None initial_state) = Loading"
proof -
  have e: "enrichedOrders initial_state = []"
    by (simp add: initial_state_def)
  have s: "series initial_state = []"
    by (simp add: initial_state_def)
  have x: "xType initial_state \<noteq> ''base_amount''"
    by (simp add: initial_state_def)
  have m: "matchMedian [] = Some NaN"
    by (simp add: matchMedian_def)
  then have n: "\<forall>v. matchMedian [] \<noteq> Some (Fin v)"
    by simp
  note t0 = undefined_center_empty_series [of "Fin 8" "''premium''" "[]" initial_state matchMedian None]
  note t5 = undefined_center_empty_series [of "Fin 8" "''premium''" "[]" initial_state matchMedian "Some (Fin 5)"]
  from t0 e n have c0: "center (window_effect matchMedian None initial_state) = Some (Fin 0)"
    by simp
  from t5 e x have c5: "center (window_effect matchMedian (Some (Fin 5)) initial_state) = Some (Fin 5)"
    by simp
  from t0 e s have r: "series (series_effect initial_state) = [] \<and>
     map serie_data (series (generateSeries initial_state)) = [[], []] \<and>
     render (window_effect matchMedian None initial_state) = Loading"
    by simp
  from e m c0 c5 r show ?thesis by blast
qed

text \<open>
  C6 as stated fails: the window effect runs on the initial state, whose order list is
  empty, and sets center to 0.
\<close>

theorem center_defined_on_empty_orders_counterexample:
  "enrichedOrders initial_state = [] \<and>
   center (window_effect matchMedian None initial_state) = Some (Fin 0)"
  by (simp add: initial_state_def window_effect_def matchMedian_def double_tilde_def
      Number_def ToInt32_def Let_def)

end
